theory Spec2Isabelle
  imports Main
begin

section \<open>Data model\<close>

text \<open>
  AccessViz.py works on pandas and geopandas tables. A table is modelled by its column
  labels and its rows; a row carries its index label and one cell per column, in column
  order. The travel time matrix holds whole numbers (minutes and metres, with -1 for
  "no data"), so a cell is either a number or a geometry; a geometry is opaque and is
  identified by a number.

  A file path is modelled by the components \<open>pathlib\<close> splits it into, so that
  \<open>Path(folder, a, b)\<close> is the folder's components followed by \<open>a\<close> and \<open>b\<close>, and the
  name of a path is its last component.

  Python exceptions are values of type \<open>error\<close>. Reading an unassigned local variable
  raises \<open>UnboundLocalError\<close>, a subclass of \<open>NameError\<close>; it is modelled by \<open>NameError\<close>.
\<close>

datatype error =
    AssertionError
  | NameError
  | IndexError
  | KeyError string
  | TypeError
  | ValueError
  | IOError
  | DataLayerError

datatype cell = Num int | Geom nat

record frame =
  columns :: "string list"
  rows :: "(nat \<times> cell list) list"

type_synonym path = "string list"

text \<open>
  The files the program reads: the YKR grid shapefile at its fixed location, the
  semicolon-separated matrix tables read by \<open>pd.read_csv\<close>, and the spatial files read
  by \<open>gpd.read_file(path)\<close> or \<open>gpd.read_file(path, layer=...)\<close>. \<open>None\<close> is a file that
  cannot be read. Whether the driver accepts a table for a folder, a file name and a
  layer name is a matter of the platform: \<open>to_file_ok\<close> says so, and \<open>to_file\<close> raises
  where it does not.
\<close>

datatype layer_sel = NoLayer | LayerName string | LayerIndex int

record world =
  grid_shp :: "frame option"
  csv_files :: "path \<Rightarrow> frame option"
  spatial_files :: "string \<Rightarrow> layer_sel \<Rightarrow> frame option"
  to_file_ok :: "path \<Rightarrow> string \<Rightarrow> string option \<Rightarrow> frame \<Rightarrow> bool"


subsection \<open>Column access\<close>

fun find_pos :: "'a \<Rightarrow> 'a list \<Rightarrow> nat option" where
  "find_pos c [] = None"
| "find_pos c (x # xs) =
     (if x = c then Some 0 else map_option Suc (find_pos c xs))"

text \<open>\<open>df[c]\<close>: the cells of column \<open>c\<close>, or \<open>KeyError\<close> when no column has that label.\<close>

definition getcol :: "frame \<Rightarrow> string \<Rightarrow> error + cell list" where
  "getcol df c =
     (case find_pos c (columns df) of
        None \<Rightarrow> Inl (KeyError c)
      | Some i \<Rightarrow> Inr (map (\<lambda>r. snd r ! i) (rows df)))"

subsection \<open>Decimal representation of an integer\<close>

definition digit_char :: "nat \<Rightarrow> char" where
  "digit_char d = ''0123456789'' ! d"

function str_nat :: "nat \<Rightarrow> string" where
  "str_nat n = (if n < 10 then [digit_char n] else str_nat (n div 10) @ [digit_char (n mod 10)])"
  by pat_completeness auto
termination
  by (relation "measure id") auto

declare str_nat.simps [simp del]

text \<open>\<open>str(ID)\<close> for a Python int.\<close>

definition str_int :: "int \<Rightarrow> string" where
  "str_int i = (if i < 0 then CHR ''-'' # str_nat (nat (- i)) else str_nat (nat i))"

section \<open>filefinder\<close>

text \<open>
  The two \<open>print\<close> calls of the loop, with the arguments of their format strings:
  \<open>Processing ID count length\<close> is "Processing file travel_times_to_ID.txt.. Progress:
  count/length", and \<open>Not_found ID folder_path\<close> is "A file for YKR_ID ID does not appear
  in provided folder path: folder_path".
\<close>

datatype msg = Processing int nat nat | Not_found int path

datatype retval = RList "path list" | RNone

text \<open>
  What a call of \<open>filefinder\<close> does: the value it returns or the exception it raises,
  the lines it prints, and the paths written to \<open>file_paths.txt\<close> (if that file is
  written).
\<close>

record ff_result =
  ff_return :: "error + retval"
  ff_printed :: "msg list"
  ff_csv :: "path list option"

text \<open>
  \<open>Path(folder_path, str(ID)[0:4] + "xxx", "travel_times_to_ {}.txt".format(ID))\<close>.
  The format string of the source has a space between \<open>to_\<close> and the identifier.
\<close>

definition file_path :: "path \<Rightarrow> int \<Rightarrow> path" where
  "file_path folder_path ID =
     folder_path @ [take 4 (str_int ID) @ ''xxx'', ''travel_times_to_ '' @ str_int ID @ ''.txt'']"

text \<open>The loop over the identifiers, with its variables \<open>count\<close> and \<open>YKR_file_paths\<close>
  and the lines printed so far.\<close>

fun ff_loop :: "cell list \<Rightarrow> path \<Rightarrow> nat \<Rightarrow> int list \<Rightarrow> nat \<Rightarrow> path list \<Rightarrow> msg list
    \<Rightarrow> path list \<times> msg list" where
  "ff_loop IDs folder_path len [] count YKR_file_paths printed = (YKR_file_paths, printed)"
| "ff_loop IDs folder_path len (ID # rest) count YKR_file_paths printed =
     (if Num ID \<in> set IDs
      then ff_loop IDs folder_path len rest (count + 1)
             (YKR_file_paths @ [file_path folder_path ID])
             (printed @ [Processing ID (count + 1) len])
      else ff_loop IDs folder_path len rest (count + 1)
             YKR_file_paths
             (printed @ [Not_found ID folder_path]))"

definition ff_raise :: "error \<Rightarrow> ff_result" where
  "ff_raise e = \<lparr>ff_return = Inl e, ff_printed = [], ff_csv = None\<rparr>"

definition filefinder :: "world \<Rightarrow> int list \<Rightarrow> path \<Rightarrow> string \<Rightarrow> ff_result" where
  "filefinder w YKR_ID_Values_as_list folder_path output =
     (if \<not> length YKR_ID_Values_as_list > 0 then ff_raise AssertionError
      else case grid_shp w of
        None \<Rightarrow> ff_raise IOError
      | Some file \<Rightarrow>
          (case getcol file ''YKR_ID'' of
             Inl e \<Rightarrow> ff_raise e
           | Inr IDs \<Rightarrow>
               (case ff_loop IDs folder_path (length YKR_ID_Values_as_list)
                       YKR_ID_Values_as_list 0 [] [] of
                  (YKR_file_paths, printed) \<Rightarrow>
                    if output = ''list''
                    then \<lparr>ff_return = Inr (RList YKR_file_paths), ff_printed = printed,
                           ff_csv = None\<rparr>
                    else if output = ''text''
                    then \<lparr>ff_return = Inr RNone, ff_printed = printed,
                           ff_csv = Some YKR_file_paths\<rparr>
                    else \<lparr>ff_return = Inr RNone, ff_printed = printed, ff_csv = None\<rparr>)))"

text \<open>The identifiers that the printed lines report as missing, in the order printed.\<close>

fun unresolved_of :: "msg list \<Rightarrow> int list" where
  "unresolved_of [] = []"
| "unresolved_of (Processing i c l # ms) = unresolved_of ms"
| "unresolved_of (Not_found i f # ms) = i # unresolved_of ms"

text \<open>The entries of the value a call returns: the paths of a returned list, nothing
  for \<open>None\<close> or an exception.\<close>

definition returned_paths :: "ff_result \<Rightarrow> path list" where
  "returned_paths r = (case ff_return r of Inr (RList ps) \<Rightarrow> ps | _ \<Rightarrow> [])"

section \<open>tablejoiner\<close>

text \<open>\<open>data.rename(columns=new_name)\<close>: labels that are keys of the dictionary are
  replaced, all others stay.\<close>

definition rename_columns :: "(string \<times> string) list \<Rightarrow> frame \<Rightarrow> frame" where
  "rename_columns new_name df =
     df\<lparr>columns := map (\<lambda>c. case map_of new_name c of None \<Rightarrow> c | Some c' \<Rightarrow> c') (columns df)\<rparr>"

definition del_pos :: "nat \<Rightarrow> 'a list \<Rightarrow> 'a list" where
  "del_pos j xs = take j xs @ drop (Suc j) xs"

text \<open>
  The column labels of \<open>left.merge(right, on=key)\<close>: the left labels, then the right
  labels without the key; a label other than the key that both tables have gets the
  suffixes \<open>_x\<close> and \<open>_y\<close>.
\<close>

definition merge_columns :: "string list \<Rightarrow> string list \<Rightarrow> string \<Rightarrow> nat \<Rightarrow> string list" where
  "merge_columns l r on j =
     map (\<lambda>c. if c \<noteq> on \<and> c \<in> set r then c @ ''_x'' else c) l @
     map (\<lambda>c. if c \<in> set l then c @ ''_y'' else c) (del_pos j r)"

text \<open>The label of a key column: \<open>KeyError\<close> when no column has it, \<open>ValueError\<close>
  when more than one has.\<close>

definition key_pos :: "frame \<Rightarrow> string \<Rightarrow> error + nat" where
  "key_pos df on =
     (case find_pos on (columns df) of
        None \<Rightarrow> Inl (KeyError on)
      | Some i \<Rightarrow> if length (filter (\<lambda>c. c = on) (columns df)) > 1 then Inl ValueError else Inr i)"

text \<open>
  \<open>left.merge(right, on=key)\<close> with the default \<open>how='inner'\<close>: one output row for
  every pair of a left row and a right row with equal keys, the left rows in their
  order, the cells of the left row first; the result has a fresh index 0, 1, ...
\<close>

definition merge_rows :: "nat \<Rightarrow> nat \<Rightarrow> (nat \<times> cell list) list \<Rightarrow> (nat \<times> cell list) list
    \<Rightarrow> cell list list" where
  "merge_rows i j ls rs =
     concat (map (\<lambda>l. map (\<lambda>r. snd l @ del_pos j (snd r))
                          (filter (\<lambda>r. snd r ! j = snd l ! i) rs)) ls)"

definition merge :: "frame \<Rightarrow> frame \<Rightarrow> string \<Rightarrow> error + frame" where
  "merge left right on =
     (case key_pos right on of
        Inl e \<Rightarrow> Inl e
      | Inr j \<Rightarrow>
          (case key_pos left on of
             Inl e \<Rightarrow> Inl e
           | Inr i \<Rightarrow>
               Inr \<lparr>columns = merge_columns (columns left) (columns right) on j,
                    rows = enumerate 0 (merge_rows i j (rows left) (rows right))\<rparr>))"

text \<open>The body of the loop up to the merge: the grid is read again for every path, the
  table is read, \<open>from_id\<close> is renamed to \<open>YKR_ID\<close>, and the grid is merged with the
  table, the grid on the left.\<close>

definition join_table :: "frame \<Rightarrow> frame \<Rightarrow> error + frame" where
  "join_table data_grid data =
     merge data_grid (rename_columns [(''from_id'', ''YKR_ID'')] data) ''YKR_ID''"

definition join_path :: "world \<Rightarrow> path \<Rightarrow> error + frame" where
  "join_path w path =
     (case grid_shp w of
        None \<Rightarrow> Inl IOError
      | Some data_grid \<Rightarrow>
          (case csv_files w path of
             None \<Rightarrow> Inl IOError
           | Some data \<Rightarrow> join_table data_grid data))"

text \<open>\<open>name.rfind(c)\<close>: the position of the last \<open>c\<close>, if there is one.\<close>

fun rfind :: "char \<Rightarrow> string \<Rightarrow> nat option" where
  "rfind c [] = None"
| "rfind c (x # xs) =
     (case rfind c xs of
        Some i \<Rightarrow> Some (Suc i)
      | None \<Rightarrow> if x = c then Some 0 else None)"

text \<open>\<open>Path(path).stem\<close>: the last component without its last suffix.\<close>

definition path_name :: "path \<Rightarrow> string" where
  "path_name p = (if p = [] then [] else last p)"

definition stem :: "path \<Rightarrow> string" where
  "stem p =
     (let name = path_name p in
      case rfind (CHR ''.'') name of
        None \<Rightarrow> name
      | Some i \<Rightarrow> if 0 < i \<and> i + 1 < length name then take i name else name)"

text \<open>The slice \<open>s[-7:]\<close>: the last seven characters, or all of \<open>s\<close> when it is shorter.\<close>

definition last7 :: "string \<Rightarrow> string" where
  "last7 s = drop (length s - 7) s"

text \<open>
  A call of \<open>data.to_file\<close>: the two arguments of \<open>Path(output_folder, name)\<close>, the
  \<open>layer\<close> argument if there is one, and the table written.
\<close>

record tj_write =
  to_folder :: path
  to_name :: string
  to_layer :: "string option"
  to_data :: frame

text \<open>Lines 119 to 130: the call of \<open>to_file\<close> that a format asks for, if it asks for
  one.\<close>

definition tj_call :: "path \<Rightarrow> string \<Rightarrow> path \<Rightarrow> frame \<Rightarrow> tj_write list" where
  "tj_call output_folder output_format path data =
     (if output_format = ''shp''
      then [\<lparr>to_folder = output_folder, to_name = last7 (stem path), to_layer = None,
             to_data = data\<rparr>]
      else if output_format = ''gpk''
      then [\<lparr>to_folder = output_folder, to_name = ''TravelMatrix.gpkg'',
             to_layer = Some (last7 (stem path)), to_data = data\<rparr>]
      else [])"

text \<open>The call is made: it raises when the driver refuses the table or its name.\<close>

definition accepted :: "world \<Rightarrow> tj_write \<Rightarrow> bool" where
  "accepted w x = to_file_ok w (to_folder x) (to_name x) (to_layer x) (to_data x)"

definition tj_to_file :: "world \<Rightarrow> path \<Rightarrow> string \<Rightarrow> path \<Rightarrow> frame \<Rightarrow> error + tj_write list" where
  "tj_to_file w output_folder output_format path data =
     (if list_all (accepted w) (tj_call output_folder output_format path data)
      then Inr (tj_call output_folder output_format path data)
      else Inl DataLayerError)"

text \<open>The loop over the paths with the files written so far; an exception ends it and
  leaves what was written before.\<close>

fun tj_loop :: "world \<Rightarrow> path \<Rightarrow> string \<Rightarrow> path list \<Rightarrow> tj_write list
    \<Rightarrow> tj_write list \<times> error option" where
  "tj_loop w output_folder output_format [] written = (written, None)"
| "tj_loop w output_folder output_format (path # rest) written =
     (case join_path w path of
        Inl e \<Rightarrow> (written, Some e)
      | Inr data \<Rightarrow>
          (case tj_to_file w output_folder output_format path data of
             Inl e \<Rightarrow> (written, Some e)
           | Inr calls \<Rightarrow>
               tj_loop w output_folder output_format rest (written @ calls)))"

definition tablejoiner :: "world \<Rightarrow> path \<Rightarrow> string \<Rightarrow> path list \<Rightarrow> tj_write list \<times> error option" where
  "tablejoiner w output_folder output_format list =
     (if \<not> length list > 0 then ([], Some AssertionError)
      else tj_loop w output_folder output_format list [])"

text \<open>
  Where a call of \<open>to_file\<close> writes: the folder, the file name and the layer name. Two
  calls with one target write to one file, or to one layer of one geopackage; the
  targets of a list of calls, each counted once, are the files and layers that exist
  after them.
\<close>

definition target :: "tj_write \<Rightarrow> path \<times> string \<times> string option" where
  "target x = (to_folder x, to_name x, to_layer x)"

definition layers_of :: "tj_write list \<Rightarrow> (path \<times> string \<times> string option) list" where
  "layers_of ws = remdups (map target ws)"


section \<open>Reading and selecting a layer\<close>

text \<open>Sequencing of steps that can raise: the first exception ends the computation.\<close>

fun and_then :: "error + 'a \<Rightarrow> ('a \<Rightarrow> error + 'b) \<Rightarrow> error + 'b" where
  "and_then (Inl e) f = Inl e"
| "and_then (Inr x) f = f x"

text \<open>\<open>xs[i]\<close> for a Python list and an index that is not negative.\<close>

definition py_index :: "'a list \<Rightarrow> nat \<Rightarrow> error + 'a" where
  "py_index xs i = (if i < length xs then Inr (xs ! i) else Inl IndexError)"

text \<open>
  The first lines of \<open>visualiser\<close> and \<open>compare\<close>: \<open>data\<close> is assigned when \<open>file\<close> is
  \<open>'shp'\<close> or \<open>'gpkg'\<close>, and in no other case. The result \<open>Inr None\<close> is the state in
  which the local variable \<open>data\<close> has no value.
\<close>

definition import_data :: "world \<Rightarrow> string \<Rightarrow> string \<Rightarrow> layer_sel \<Rightarrow> error + frame option" where
  "import_data w file path layer =
     (if file = ''shp''
      then (case spatial_files w path NoLayer of None \<Rightarrow> Inl IOError | Some d \<Rightarrow> Inr (Some d))
      else if file = ''gpkg''
      then (case spatial_files w path layer of None \<Rightarrow> Inl IOError | Some d \<Rightarrow> Inr (Some d))
      else Inr None)"

text \<open>\<open>column >= 0\<close>: one truth value per cell; a geometry cannot be compared with a
  number.\<close>

fun numeric :: "cell \<Rightarrow> bool" where
  "numeric (Num v) = True"
| "numeric (Geom g) = False"

fun num_of :: "cell \<Rightarrow> int" where
  "num_of (Num v) = v"
| "num_of (Geom g) = 0"

definition ge0 :: "cell list \<Rightarrow> error + bool list" where
  "ge0 cs = (if list_all numeric cs then Inr (map (\<lambda>c. 0 \<le> num_of c) cs) else Inl TypeError)"

text \<open>\<open>df.loc[mask]\<close>: the rows whose mask entry is true, with their index labels.\<close>

definition loc :: "frame \<Rightarrow> bool list \<Rightarrow> frame" where
  "loc df keep = df\<lparr>rows := map fst (filter snd (zip (rows df) keep))\<rparr>"

text \<open>\<open>df[[c1, c2, ...]]\<close>: the listed columns in the listed order, or \<open>KeyError\<close> when
  one of them is missing.\<close>

fun positions :: "string list \<Rightarrow> string list \<Rightarrow> error + nat list" where
  "positions cols [] = Inr []"
| "positions cols (c # cs) =
     (case find_pos c cols of
        None \<Rightarrow> Inl (KeyError c)
      | Some i \<Rightarrow> and_then (positions cols cs) (\<lambda>is. Inr (i # is)))"

definition select_columns :: "frame \<Rightarrow> string list \<Rightarrow> error + frame" where
  "select_columns df cs =
     and_then (positions (columns df) cs) (\<lambda>is.
       Inr \<lparr>columns = cs, rows = map (\<lambda>r. (fst r, map (\<lambda>i. snd r ! i) is)) (rows df)\<rparr>)"

text \<open>\<open>df[c] = values\<close>: an existing column is overwritten in place, a new one is added
  at the end.\<close>

definition set_col :: "frame \<Rightarrow> string \<Rightarrow> cell list \<Rightarrow> frame" where
  "set_col df c vs =
     (case find_pos c (columns df) of
        None \<Rightarrow> \<lparr>columns = columns df @ [c],
                  rows = map (\<lambda>(r, v). (fst r, snd r @ [v])) (zip (rows df) vs)\<rparr>
      | Some i \<Rightarrow> df\<lparr>rows := map (\<lambda>(r, v). (fst r, (snd r)[i := v])) (zip (rows df) vs)\<rparr>)"

text \<open>\<open>df.reset_index(drop=True)\<close>.\<close>

definition reset_index :: "frame \<Rightarrow> frame" where
  "reset_index df = df\<lparr>rows := enumerate 0 (map snd (rows df))\<rparr>"

section \<open>compare\<close>

text \<open>Line 287: the rows in which both modes are at least 0.\<close>

definition select_valid :: "frame \<Rightarrow> string list \<Rightarrow> error + frame" where
  "select_valid data lst =
     and_then (py_index lst 0) (\<lambda>a.
     and_then (getcol data a) (\<lambda>ca.
     and_then (ge0 ca) (\<lambda>ma.
     and_then (py_index lst 1) (\<lambda>b.
     and_then (getcol data b) (\<lambda>cb.
     and_then (ge0 cb) (\<lambda>mb.
     Inr (loc data (map (\<lambda>(p, q). p \<and> q) (zip ma mb)))))))))"

text \<open>
  Line 289: \<open>selection['diff'] = selection[a] - selection[b]\<close>. When \<open>a\<close>, \<open>b\<close> and
  \<open>'geometry'\<close> are not three different labels, the selection of line 288 has two
  columns with one label; \<open>selection[label]\<close> is then a table and not a column, and the
  assignment of a table of two columns to the column \<open>'diff'\<close> raises \<open>ValueError\<close>.
\<close>

definition sub_cols :: "cell list \<Rightarrow> cell list \<Rightarrow> error + cell list" where
  "sub_cols xs ys =
     (if list_all numeric xs \<and> list_all numeric ys
      then Inr (map (\<lambda>(x, y). Num (num_of x - num_of y)) (zip xs ys))
      else Inl TypeError)"

definition assign_diff :: "frame \<Rightarrow> string \<Rightarrow> string \<Rightarrow> error + frame" where
  "assign_diff selection a b =
     (if \<not> distinct (columns selection) then Inl ValueError
      else
        and_then (getcol selection a) (\<lambda>xs.
        and_then (getcol selection b) (\<lambda>ys.
        and_then (sub_cols xs ys) (\<lambda>ds.
        Inr (set_col selection ''diff'' ds)))))"

text \<open>Lines 287 to 289: the value of the local variable \<open>selection\<close>.\<close>

definition compare_selection :: "frame option \<Rightarrow> string list \<Rightarrow> error + frame" where
  "compare_selection data_var lst =
     (case data_var of
        None \<Rightarrow> Inl NameError
      | Some data \<Rightarrow>
          and_then (select_valid data lst) (\<lambda>selection.
          and_then (py_index lst 0) (\<lambda>a.
          and_then (py_index lst 1) (\<lambda>b.
          and_then (select_columns selection [a, b, ''geometry'']) (\<lambda>selection.
          assign_diff selection a b)))))"

text \<open>A call of \<open>to_file\<close> in \<open>compare\<close>: the file name, the \<open>layer\<close> argument if there is
  one, and the table written.\<close>

record cmp_write =
  cw_file :: string
  cw_layer :: "string option"
  cw_data :: frame

definition vs_name :: "string \<Rightarrow> string \<Rightarrow> string \<Rightarrow> string" where
  "vs_name YKR_ID a b = ''Acessibility_'' @ YKR_ID @ ''_'' @ a @ ''_vs_'' @ b"

text \<open>
  Lines 292 to 297: the table handed to \<open>to_file\<close> is \<open>data\<close>, the layer as it was read,
  and not \<open>selection\<close>.
\<close>

definition compare_to_file :: "string \<Rightarrow> string \<Rightarrow> string \<Rightarrow> string list \<Rightarrow> frame option
    \<Rightarrow> error + cmp_write option" where
  "compare_to_file file YKR_ID path lst data_var =
     (if file = ''shp''
      then (case data_var of
              None \<Rightarrow> Inl NameError
            | Some data \<Rightarrow>
                and_then (py_index lst 0) (\<lambda>a.
                and_then (py_index lst 1) (\<lambda>b.
                Inr (Some \<lparr>cw_file = path @ [CHR 0x5C] @ vs_name YKR_ID a b @ ''.shp'',
                           cw_layer = None, cw_data = data\<rparr>))))
      else if file = ''gpkg''
      then (case data_var of
              None \<Rightarrow> Inl NameError
            | Some data \<Rightarrow>
                and_then (py_index lst 0) (\<lambda>a.
                and_then (py_index lst 1) (\<lambda>b.
                Inr (Some \<lparr>cw_file = vs_name YKR_ID a b @ ''.gpkg'',
                           cw_layer = Some YKR_ID, cw_data = data\<rparr>))))
      else Inr None)"

text \<open>\<open>compare\<close> returns nothing; its result is the file it writes, or the exception
  it raises before writing.\<close>

definition compare :: "world \<Rightarrow> string \<Rightarrow> string \<Rightarrow> string \<Rightarrow> string list
    \<Rightarrow> error + cmp_write option" where
  "compare w file YKR_ID path lst =
     and_then (import_data w file path (LayerName YKR_ID)) (\<lambda>data_var.
     and_then (compare_selection data_var lst) (\<lambda>selection.
     compare_to_file file YKR_ID path lst data_var))"

section \<open>visualiser\<close>

text \<open>Lines 164 and 165: the rows with a value for the mode, and the columns plotted.\<close>

definition select_mode :: "frame option \<Rightarrow> string \<Rightarrow> error + frame" where
  "select_mode data_var mode =
     (case data_var of
        None \<Rightarrow> Inl NameError
      | Some data \<Rightarrow>
          and_then (getcol data mode) (\<lambda>c.
          and_then (ge0 c) (\<lambda>m.
          select_columns (loc data m) [mode, ''geometry''])))"

text \<open>Lines 168 to 170: the grid cell of the identifier.\<close>

definition grid_position :: "world \<Rightarrow> int \<Rightarrow> error + frame" where
  "grid_position w YKR_ID =
     (case grid_shp w of
        None \<Rightarrow> Inl IOError
      | Some data_grid \<Rightarrow>
          and_then (getcol data_grid ''YKR_ID'') (\<lambda>ids.
          Inr (reset_index (loc data_grid (map (\<lambda>c. c = Num YKR_ID) ids)))))"

definition title_of :: "string \<Rightarrow> string" where
  "title_of mode =
     (if mode = ''pt_m_t'' then ''Public transport ''
      else if mode = ''car_sl_t'' then ''Car ''
      else if mode = ''walk_t'' then ''Walking ''
      else if mode = ''bike_f_t'' then ''Biking ''
      else ''Please enter a correct value for mode'')"

text \<open>
  The map saved by \<open>visualiser\<close>: its file name, its title, the column drawn, the rows
  drawn and the cell marked. Drawing itself (matplotlib, folium) is outside the model
  and is taken to succeed. \<open>YKR_ID\<close> is an int, as the docstring of \<open>visualiser\<close> has it.
\<close>

record artefact =
  art_file :: string
  art_title :: string
  art_column :: string
  art_layer :: frame
  art_marker :: frame

definition visualiser :: "world \<Rightarrow> string \<Rightarrow> string \<Rightarrow> int \<Rightarrow> string \<Rightarrow> string \<Rightarrow> string
    \<Rightarrow> error + artefact option" where
  "visualiser w file path YKR_ID mode output map' =
     and_then (import_data w file path (LayerIndex YKR_ID)) (\<lambda>data_var.
     and_then (select_mode data_var mode) (\<lambda>selection.
     and_then (grid_position w YKR_ID) (\<lambda>position.
       if map' = ''static''
       then Inr (Some \<lparr>art_file = output @ str_int YKR_ID @ ''_'' @ map' @ ''.png'',
                      art_title = title_of mode, art_column = mode,
                      art_layer = selection, art_marker = position\<rparr>)
       else if map' = ''interactive''
       then Inr (Some \<lparr>art_file = output @ str_int YKR_ID @ ''_'' @ map' @ ''.html'',
                      art_title = title_of mode, art_column = mode,
                      art_layer = selection, art_marker = position\<rparr>)
       else Inr None)))"

section \<open>Notions used in the statements\<close>

text \<open>The cell of a row in the column labelled \<open>c\<close>.\<close>

definition cell_of :: "frame \<Rightarrow> string \<Rightarrow> nat \<times> cell list \<Rightarrow> cell" where
  "cell_of df c r = (case find_pos c (columns df) of None \<Rightarrow> Geom 0 | Some i \<Rightarrow> snd r ! i)"

text \<open>A column all of whose cells are numbers.\<close>

definition numeric_col :: "frame \<Rightarrow> string \<Rightarrow> bool" where
  "numeric_col df c \<longleftrightarrow> list_all (\<lambda>r. numeric (cell_of df c r)) (rows df)"

text \<open>The rows of a layer in which both modes have a value: neither is negative.\<close>

definition valid_rows :: "frame \<Rightarrow> string \<Rightarrow> string \<Rightarrow> (nat \<times> cell list) list" where
  "valid_rows data a b =
     filter (\<lambda>r. 0 \<le> num_of (cell_of data a r) \<and> 0 \<le> num_of (cell_of data b r)) (rows data)"

text \<open>For each of these rows, the value of the first mode minus the value of the
  second.\<close>

definition diff_cells :: "frame \<Rightarrow> string \<Rightarrow> string \<Rightarrow> cell list" where
  "diff_cells data a b =
     map (\<lambda>r. Num (num_of (cell_of data a r) - num_of (cell_of data b r))) (valid_rows data a b)"

text \<open>The selection after line 288: the valid rows, cut down to the two modes and the
  geometry.\<close>

definition picked :: "frame \<Rightarrow> string \<Rightarrow> string \<Rightarrow> frame" where
  "picked data a b =
     \<lparr>columns = [a, b, ''geometry''],
      rows = map (\<lambda>r. (fst r, [cell_of data a r, cell_of data b r, cell_of data ''geometry'' r]))
               (valid_rows data a b)\<rparr>"

section \<open>A small grid and its files\<close>

text \<open>Three grid cells, one matrix table with a row for two of them and for a cell
  that is not in the grid, and one joined layer with a "no data" row. The driver accepts
  every table.\<close>

definition ex_grid :: frame where
  "ex_grid =
     \<lparr>columns = [''x'', ''y'', ''YKR_ID'', ''geometry''],
      rows = [(0, [Num 381875, Num 6697880, Num 5785640, Geom 0]),
              (1, [Num 382125, Num 6697880, Num 5785641, Geom 1]),
              (2, [Num 382375, Num 6697880, Num 5797076, Geom 2])]\<rparr>"

definition ex_table :: frame where
  "ex_table =
     \<lparr>columns = [''from_id'', ''to_id'', ''car_r_t'', ''pt_r_t''],
      rows = [(0, [Num 5785640, Num 5797076, Num 15, Num (- 1)]),
              (1, [Num 5785641, Num 5797076, Num 15, Num 25]),
              (2, [Num 9999999, Num 5797076, Num 7, Num 9])]\<rparr>"

definition ex_layer :: frame where
  "ex_layer =
     \<lparr>columns = [''YKR_ID'', ''car_r_t'', ''pt_r_t'', ''geometry''],
      rows = [(0, [Num 5785640, Num 15, Num (- 1), Geom 0]),
              (1, [Num 5785641, Num 15, Num 25, Geom 1])]\<rparr>"

definition ex_path :: path where
  "ex_path = [''data'', ''5797xxx'', ''travel_times_to_ 5797076.txt'']"

definition ex_world :: world where
  "ex_world =
     \<lparr>grid_shp = Some ex_grid,
      csv_files = (\<lambda>p. if p = ex_path then Some ex_table else None),
      spatial_files = (\<lambda>p l. if p = ''out'' then Some ex_layer else None),
      to_file_ok = (\<lambda>folder name layer data. True)\<rparr>"

text \<open>
  A second set of files: the matrix tables of two identifiers, the table of the first
  identifier once more in another folder, and a layer that already has a \<open>diff\<close>
  column.
\<close>

definition ex_path2 :: path where
  "ex_path2 = [''data'', ''5785xxx'', ''travel_times_to_ 5785640.txt'']"

definition ex_path_old :: path where
  "ex_path_old = [''data2015'', ''5797xxx'', ''travel_times_to_ 5797076.txt'']"

definition ex_table2 :: frame where
  "ex_table2 =
     \<lparr>columns = [''from_id'', ''to_id'', ''car_r_t'', ''pt_r_t''],
      rows = [(0, [Num 5797076, Num 5785640, Num 16, Num 27])]\<rparr>"

definition ex_table_old :: frame where
  "ex_table_old =
     \<lparr>columns = [''from_id'', ''to_id'', ''car_r_t'', ''pt_r_t''],
      rows = [(0, [Num 5785641, Num 5797076, Num 14, Num 30])]\<rparr>"

definition ex_layer_diff :: frame where
  "ex_layer_diff =
     \<lparr>columns = [''YKR_ID'', ''car_r_t'', ''pt_r_t'', ''diff'', ''geometry''],
      rows = [(0, [Num 5785641, Num 15, Num 25, Num 5, Geom 1])]\<rparr>"

definition ex_world2 :: world where
  "ex_world2 =
     \<lparr>grid_shp = Some ex_grid,
      csv_files = (\<lambda>p. if p = ex_path then Some ex_table
                       else if p = ex_path2 then Some ex_table2
                       else if p = ex_path_old then Some ex_table_old
                       else None),
      spatial_files = (\<lambda>p l. if p = ''out'' then Some ex_layer
                         else if p = ''old'' then Some ex_layer_diff
                         else None),
      to_file_ok = (\<lambda>folder name layer data. True)\<rparr>"

section \<open>Properties of filefinder\<close>

text \<open>
  C6. An empty identifier list fails at the assertion of the first line: the call
  raises, prints nothing, derives no path and writes no file, whatever the grid, the
  folder and the requested output are.
\<close>

theorem filefinder_empty_fails:
  "filefinder w [] folder_path output =
     \<lparr>ff_return = Inl AssertionError, ff_printed = [], ff_csv = None\<rparr>"
  by (simp add: filefinder_def ff_raise_def)

subsection \<open>The loop\<close>

lemma unresolved_of_append: "unresolved_of (xs @ ys) = unresolved_of xs @ unresolved_of ys"
  by (induction xs rule: unresolved_of.induct) auto

lemma ff_loop_paths:
  "fst (ff_loop IDs f len ids count fps out) =
     fps @ map (file_path f) (filter (\<lambda>i. Num i \<in> set IDs) ids)"
  by (induction ids arbitrary: count fps out) auto

lemma ff_loop_unresolved:
  "unresolved_of (snd (ff_loop IDs f len ids count fps out)) =
     unresolved_of out @ filter (\<lambda>i. Num i \<notin> set IDs) ids"
  by (induction ids arbitrary: count fps out) (auto simp: unresolved_of_append)

lemma ff_loop_printed_length:
  "length (snd (ff_loop IDs f len ids count fps out)) = length out + length ids"
  by (induction ids arbitrary: count fps out) auto

lemma filefinder_list:
  assumes "ids \<noteq> []" and "grid_shp w = Some g" and "getcol g ''YKR_ID'' = Inr IDs"
  shows "filefinder w ids f ''list'' =
     \<lparr>ff_return = Inr (RList (fst (ff_loop IDs f (length ids) ids 0 [] []))),
      ff_printed = snd (ff_loop IDs f (length ids) ids 0 [] []), ff_csv = None\<rparr>"
  using assms by (simp add: filefinder_def split: prod.splits)

lemma filefinder_printed:
  assumes "ids \<noteq> []" and "grid_shp w = Some g" and "getcol g ''YKR_ID'' = Inr IDs"
  shows "ff_printed (filefinder w ids f output) = snd (ff_loop IDs f (length ids) ids 0 [] [])"
  using assms by (simp add: filefinder_def split: prod.splits)

lemma filefinder_no_raise:
  assumes "ids \<noteq> []" and "grid_shp w = Some g" and "getcol g ''YKR_ID'' = Inr IDs"
  shows "\<exists>v. ff_return (filefinder w ids f output) = Inr v"
  using assms by (simp add: filefinder_def split: prod.splits)

lemma filefinder_returned:
  assumes "ids \<noteq> []" and "grid_shp w = Some g" and "getcol g ''YKR_ID'' = Inr IDs"
  shows "returned_paths (filefinder w ids f ''list'') =
           map (file_path f) (filter (\<lambda>i. Num i \<in> set IDs) ids)"
  using filefinder_list [OF assms] by (simp add: returned_paths_def ff_loop_paths)

lemma filefinder_text:
  assumes "ids \<noteq> []" and "grid_shp w = Some g" and "getcol g ''YKR_ID'' = Inr IDs"
  shows "filefinder w ids f ''text'' =
     \<lparr>ff_return = Inr RNone,
      ff_printed = snd (ff_loop IDs f (length ids) ids 0 [] []),
      ff_csv = Some (fst (ff_loop IDs f (length ids) ids 0 [] []))\<rparr>"
  using assms by (simp add: filefinder_def split: prod.splits)

lemma filefinder_csv:
  assumes "ids \<noteq> []" and "grid_shp w = Some g" and "getcol g ''YKR_ID'' = Inr IDs"
  shows "ff_csv (filefinder w ids f ''text'') =
           Some (map (file_path f) (filter (\<lambda>i. Num i \<in> set IDs) ids))"
  using filefinder_text [OF assms] by (simp add: ff_loop_paths)

lemma ff_loop_keeps_printed:
  "m \<in> set out \<Longrightarrow> m \<in> set (snd (ff_loop IDs f len ids count fps out))"
  by (induction ids arbitrary: count fps out) auto

lemma ff_loop_prints_miss:
  "x \<in> set ids \<Longrightarrow> Num x \<notin> set IDs \<Longrightarrow>
     Not_found x f \<in> set (snd (ff_loop IDs f len ids count fps out))"
proof (induction ids arbitrary: count fps out)
  case Nil
  then show ?case by simp
next
  case (Cons i ids)
  show ?case
  proof (cases "x = i")
    case True
    with Cons.prems show ?thesis
      by (simp add: ff_loop_keeps_printed)
  next
    case False
    with Cons.prems have "x \<in> set ids" by simp
    from Cons.IH [OF this Cons.prems(2)] show ?thesis by simp
  qed
qed

lemma length_filter_partition:
  "length (filter P xs) + length (filter (\<lambda>x. \<not> P x) xs) = length xs"
  by (induction xs) auto

lemma ex_grid_ids:
  "getcol ex_grid ''YKR_ID'' = Inr [Num 5785640, Num 5785641, Num 5797076]"
  by (simp add: getcol_def ex_grid_def)

lemma ex_world_grid: "grid_shp ex_world = Some ex_grid"
  by (simp add: ex_world_def)

subsection \<open>Resolved and unresolved identifiers\<close>

text \<open>
  C2, as the claim states it: the value returned for a non-empty list holds a resolved
  and an unresolved sequence whose lengths add up to the length of the input. The
  value \<open>filefinder\<close> returns with \<open>output = 'list'\<close> is the list of the resolved paths
  alone, and with \<open>output = 'text'\<close> it is \<open>None\<close>: for three identifiers of which one
  is not in the grid, two entries are returned.
\<close>

theorem filefinder_returns_resolved_only:
  "ff_return (filefinder ex_world [5785640, 9999999, 5797076] [''data''] ''list'') =
     Inr (RList [[''data'', ''5785xxx'', ''travel_times_to_ 5785640.txt''],
                 [''data'', ''5797xxx'', ''travel_times_to_ 5797076.txt'']])
   \<and> length (returned_paths (filefinder ex_world [5785640, 9999999, 5797076] [''data''] ''list''))
       \<noteq> length [5785640, 9999999, 5797076 :: int]
   \<and> ff_return (filefinder ex_world [5785640, 9999999, 5797076] [''data''] ''text'') = Inr RNone"
  by (simp add: filefinder_def returned_paths_def ex_world_def ex_grid_def getcol_def
      file_path_def str_int_def str_nat.simps digit_char_def)

text \<open>
  C2, amended: for a non-empty list and a grid that can be read, \<open>filefinder\<close> with
  \<open>output = 'list'\<close> returns the list of the paths of the identifiers that are in the
  grid, in the order of the input, and writes no file; with \<open>output = 'text'\<close> it returns
  \<open>None\<close> and writes these paths to \<open>file_paths.txt\<close>. In both modes it prints a "does
  not appear" line for each identifier that is not in the grid, in the order of the
  input; the number of returned paths and the number of identifiers reported missing
  add up to the length of the input.
\<close>

theorem filefinder_partition:
  assumes "ids \<noteq> []" and "grid_shp w = Some g" and "getcol g ''YKR_ID'' = Inr IDs"
  shows "returned_paths (filefinder w ids f ''list'') =
           map (file_path f) (filter (\<lambda>i. Num i \<in> set IDs) ids)
       \<and> unresolved_of (ff_printed (filefinder w ids f ''list'')) =
           filter (\<lambda>i. Num i \<notin> set IDs) ids
       \<and> length (returned_paths (filefinder w ids f ''list'')) +
         length (unresolved_of (ff_printed (filefinder w ids f ''list''))) = length ids
       \<and> ff_return (filefinder w ids f ''list'') =
           Inr (RList (map (file_path f) (filter (\<lambda>i. Num i \<in> set IDs) ids)))
       \<and> ff_csv (filefinder w ids f ''list'') = None
       \<and> ff_return (filefinder w ids f ''text'') = Inr RNone
       \<and> ff_csv (filefinder w ids f ''text'') =
           Some (map (file_path f) (filter (\<lambda>i. Num i \<in> set IDs) ids))
       \<and> unresolved_of (ff_printed (filefinder w ids f ''text'')) =
           filter (\<lambda>i. Num i \<notin> set IDs) ids"
proof -
  have r: "returned_paths (filefinder w ids f ''list'') =
           map (file_path f) (filter (\<lambda>i. Num i \<in> set IDs) ids)"
    by (rule filefinder_returned [OF assms])
  have u: "unresolved_of (ff_printed (filefinder w ids f how)) =
           filter (\<lambda>i. Num i \<notin> set IDs) ids" for how
    using filefinder_printed [OF assms] by (simp add: ff_loop_unresolved)
  have n: "length (returned_paths (filefinder w ids f ''list'')) +
         length (unresolved_of (ff_printed (filefinder w ids f ''list''))) = length ids"
    unfolding r u using length_filter_partition [of "\<lambda>i. Num i \<in> set IDs" ids] by simp
  have l: "ff_return (filefinder w ids f ''list'') =
           Inr (RList (map (file_path f) (filter (\<lambda>i. Num i \<in> set IDs) ids)))"
    using filefinder_list [OF assms] by (simp add: ff_loop_paths)
  have c: "ff_csv (filefinder w ids f ''list'') = None"
    using filefinder_list [OF assms] by simp
  have t: "ff_return (filefinder w ids f ''text'') = Inr RNone"
    using filefinder_text [OF assms] by simp
  have v: "ff_csv (filefinder w ids f ''text'') =
           Some (map (file_path f) (filter (\<lambda>i. Num i \<in> set IDs) ids))"
    by (rule filefinder_csv [OF assms])
  show ?thesis
    by (intro conjI) (rule r u n l c t v)+
qed

theorem filefinder_partition_witness:
  "returned_paths (filefinder ex_world [5785640, 9999999, 5797076] [''data''] ''list'') =
     [[''data'', ''5785xxx'', ''travel_times_to_ 5785640.txt''],
      [''data'', ''5797xxx'', ''travel_times_to_ 5797076.txt'']]
   \<and> unresolved_of (ff_printed (filefinder ex_world [5785640, 9999999, 5797076] [''data''] ''list''))
       = [9999999]
   \<and> ff_return (filefinder ex_world [5785640, 9999999, 5797076] [''data''] ''text'') = Inr RNone
   \<and> ff_csv (filefinder ex_world [5785640, 9999999, 5797076] [''data''] ''text'') =
       Some [[''data'', ''5785xxx'', ''travel_times_to_ 5785640.txt''],
             [''data'', ''5797xxx'', ''travel_times_to_ 5797076.txt'']]"
  using filefinder_partition [of "[5785640, 9999999, 5797076]" ex_world ex_grid
      "[Num 5785640, Num 5785641, Num 5797076]" "[''data'']", OF _ ex_world_grid ex_grid_ids]
  by (simp add: file_path_def str_int_def str_nat.simps digit_char_def)

subsection \<open>The location of a file\<close>

text \<open>
  C5, as the claim states it: the file of identifier 5797076 is named
  \<open>travel_times_to_5797076.txt\<close>. The name \<open>filefinder\<close> builds has a space before the
  identifier.
\<close>

theorem filefinder_name_has_space:
  "map path_name (returned_paths (filefinder ex_world [5797076] [''data''] ''list'')) =
     [''travel_times_to_ 5797076.txt'']
   \<and> map path_name (returned_paths (filefinder ex_world [5797076] [''data''] ''list'')) \<noteq>
     [''travel_times_to_'' @ ''5797076'' @ ''.txt'']"
  by (simp add: filefinder_def returned_paths_def ex_world_def ex_grid_def getcol_def
      file_path_def str_int_def str_nat.simps digit_char_def path_name_def)

text \<open>
  C5, amended: for every requested identifier that is in the grid, the returned list
  holds the path made of the folder, a directory named by the first four characters of
  the identifier's decimal representation followed by \<open>xxx\<close>, and a file named
  \<open>travel_times_to_\<close>, a space, the identifier and \<open>.txt\<close>.
\<close>

theorem filefinder_location:
  assumes "grid_shp w = Some g" and "getcol g ''YKR_ID'' = Inr IDs"
    and "ID \<in> set ids" and "Num ID \<in> set IDs"
  shows "folder_path @ [take 4 (str_int ID) @ ''xxx'', ''travel_times_to_ '' @ str_int ID @ ''.txt'']
           \<in> set (returned_paths (filefinder w ids folder_path ''list''))"
proof -
  from assms(3) have ne: "ids \<noteq> []" by auto
  have "file_path folder_path ID \<in> set (map (file_path folder_path) (filter (\<lambda>i. Num i \<in> set IDs) ids))"
    using assms(3,4) by simp
  then show ?thesis
    unfolding filefinder_returned [OF ne assms(1,2)] by (simp add: file_path_def)
qed

theorem filefinder_location_witness:
  "[''data'', ''5785xxx'', ''travel_times_to_ 5785641.txt'']
     \<in> set (returned_paths (filefinder ex_world [9999999, 5785641] [''data''] ''list''))"
  using filefinder_location [of ex_world ex_grid "[Num 5785640, Num 5785641, Num 5797076]"
      5785641 "[9999999, 5785641]" "[''data'']", OF ex_world_grid ex_grid_ids]
  by (simp add: str_int_def str_nat.simps digit_char_def)

subsection \<open>Identifiers that are not in the grid\<close>

text \<open>
  C7, as the claim states it: an identifier that is not in the grid is recorded in an
  unresolved sequence. For the identifiers 5785640 and 9999999, of which the second is
  not in the grid, all that a call gives back is the list of the one resolved path (or
  \<open>None\<close> and the file with that path): the missing identifier is in nothing returned or
  written. Its only trace is a printed line.
\<close>

theorem filefinder_miss_only_printed:
  "ff_return (filefinder ex_world [5785640, 9999999] [''data''] ''list'') =
     Inr (RList [[''data'', ''5785xxx'', ''travel_times_to_ 5785640.txt'']])
   \<and> ff_csv (filefinder ex_world [5785640, 9999999] [''data''] ''list'') = None
   \<and> ff_return (filefinder ex_world [5785640, 9999999] [''data''] ''text'') = Inr RNone
   \<and> ff_csv (filefinder ex_world [5785640, 9999999] [''data''] ''text'') =
       Some [[''data'', ''5785xxx'', ''travel_times_to_ 5785640.txt'']]
   \<and> ff_printed (filefinder ex_world [5785640, 9999999] [''data''] ''text'') =
       [Processing 5785640 1 2, Not_found 9999999 [''data'']]"
  by (simp add: filefinder_def ex_world_def ex_grid_def getcol_def
      file_path_def str_int_def str_nat.simps digit_char_def)

text \<open>
  C7, amended. An identifier \<open>x\<close> that is not in the grid, anywhere in the list: the
  call does not raise, whatever the output mode; a "does not appear" line is printed
  for \<open>x\<close>, so \<open>x\<close> is among the identifiers the printed lines report missing; one line
  is printed for every identifier of the list; and the paths returned (mode \<open>'list'\<close>)
  or written (mode \<open>'text'\<close>) are those of the identifiers before \<open>x\<close> and after \<open>x\<close> that
  are in the grid: the loop goes on after the miss.
\<close>

theorem filefinder_continues_after_miss:
  assumes "grid_shp w = Some g" and "getcol g ''YKR_ID'' = Inr IDs" and "Num x \<notin> set IDs"
  shows "(\<exists>v. ff_return (filefinder w (pre @ x # post) f output) = Inr v)
       \<and> Not_found x f \<in> set (ff_printed (filefinder w (pre @ x # post) f output))
       \<and> x \<in> set (unresolved_of (ff_printed (filefinder w (pre @ x # post) f output)))
       \<and> length (ff_printed (filefinder w (pre @ x # post) f output)) = length (pre @ x # post)
       \<and> returned_paths (filefinder w (pre @ x # post) f ''list'') =
           map (file_path f) (filter (\<lambda>i. Num i \<in> set IDs) pre) @
           map (file_path f) (filter (\<lambda>i. Num i \<in> set IDs) post)
       \<and> ff_csv (filefinder w (pre @ x # post) f ''text'') =
           Some (map (file_path f) (filter (\<lambda>i. Num i \<in> set IDs) pre) @
                 map (file_path f) (filter (\<lambda>i. Num i \<in> set IDs) post))"
proof -
  have ne: "pre @ x # post \<noteq> []" by simp
  note a = assms(1,2)
  have 1: "\<exists>v. ff_return (filefinder w (pre @ x # post) f output) = Inr v"
    by (rule filefinder_no_raise [OF ne a])
  have 0: "Not_found x f \<in> set (ff_printed (filefinder w (pre @ x # post) f output))"
    unfolding filefinder_printed [OF ne a]
    by (rule ff_loop_prints_miss) (simp_all add: assms(3))
  have 2: "x \<in> set (unresolved_of (ff_printed (filefinder w (pre @ x # post) f output)))"
    unfolding filefinder_printed [OF ne a] ff_loop_unresolved using assms(3) by simp
  have 3: "length (ff_printed (filefinder w (pre @ x # post) f output)) = length (pre @ x # post)"
    unfolding filefinder_printed [OF ne a] ff_loop_printed_length by simp
  have 4: "returned_paths (filefinder w (pre @ x # post) f ''list'') =
           map (file_path f) (filter (\<lambda>i. Num i \<in> set IDs) pre) @
           map (file_path f) (filter (\<lambda>i. Num i \<in> set IDs) post)"
    unfolding filefinder_returned [OF ne a] using assms(3) by simp
  have 5: "ff_csv (filefinder w (pre @ x # post) f ''text'') =
           Some (map (file_path f) (filter (\<lambda>i. Num i \<in> set IDs) pre) @
                 map (file_path f) (filter (\<lambda>i. Num i \<in> set IDs) post))"
    unfolding filefinder_csv [OF ne a] using assms(3) by simp
  show ?thesis
    by (intro conjI) (rule 1 0 2 3 4 5)+
qed

theorem filefinder_continues_after_miss_witness:
  "(\<exists>v. ff_return (filefinder ex_world ([5785640] @ 9999999 # [5797076]) [''data''] ''text'') = Inr v)
   \<and> Not_found 9999999 [''data''] \<in> set (ff_printed
         (filefinder ex_world ([5785640] @ 9999999 # [5797076]) [''data''] ''text''))
   \<and> returned_paths (filefinder ex_world ([5785640] @ 9999999 # [5797076]) [''data''] ''list'') =
       [[''data'', ''5785xxx'', ''travel_times_to_ 5785640.txt''],
        [''data'', ''5797xxx'', ''travel_times_to_ 5797076.txt'']]"
  using filefinder_continues_after_miss [of ex_world ex_grid
      "[Num 5785640, Num 5785641, Num 5797076]" 9999999 "[5785640]" "[5797076]" "[''data'']" "''text''",
      OF ex_world_grid ex_grid_ids]
  by (simp add: file_path_def str_int_def str_nat.simps digit_char_def)

section \<open>Properties of column access\<close>

lemma find_pos_None: "find_pos c cs = None \<longleftrightarrow> c \<notin> set cs"
  by (induction cs) auto

lemma find_pos_Some_less: "find_pos c cs = Some i \<Longrightarrow> i < length cs \<and> cs ! i = c"
  by (induction cs arbitrary: i) (auto split: if_splits)




lemma find_pos_append_new:
  "c \<notin> set cs \<Longrightarrow> find_pos c (cs @ [c]) = Some (length cs)"
  by (induction cs) auto

lemma getcol_present:
  "find_pos c (columns df) = Some i \<Longrightarrow> getcol df c = Inr (map (cell_of df c) (rows df))"
  by (simp add: getcol_def cell_of_def)


lemma getcol_Inr_present: "getcol df c = Inr cs \<Longrightarrow> \<exists>i. find_pos c (columns df) = Some i"
  by (auto simp: getcol_def split: option.splits)

section \<open>Properties of tablejoiner\<close>

subsection \<open>The merge\<close>



















subsection \<open>The loop over the paths\<close>

lemma tj_to_file_Inr: "tj_to_file w out fmt p d = Inr cs \<Longrightarrow> cs = tj_call out fmt p d"
  by (simp add: tj_to_file_def split: if_splits)

lemma tj_loop_ok:
  "tj_loop w out fmt paths acc = (ws, None) \<Longrightarrow>
     \<exists>ds. map Inr ds = map (join_path w) paths
        \<and> ws = acc @ concat (map (\<lambda>(p, d). tj_call out fmt p d) (zip paths ds))"
proof (induction paths arbitrary: acc)
  case Nil
  then show ?case by simp
next
  case (Cons p ps)
  from Cons.prems obtain d where d: "join_path w p = Inr d"
    by (cases "join_path w p") auto
  from Cons.prems d obtain cs where cs: "tj_to_file w out fmt p d = Inr cs"
    by (cases "tj_to_file w out fmt p d") auto
  from tj_to_file_Inr [OF cs] have cs_eq: "cs = tj_call out fmt p d" .
  from Cons.prems d cs have "tj_loop w out fmt ps (acc @ cs) = (ws, None)"
    by simp
  from Cons.IH [OF this] obtain ds where ds: "map Inr ds = map (join_path w) ps"
    "ws = (acc @ cs) @ concat (map (\<lambda>(p, d). tj_call out fmt p d) (zip ps ds))"
    by blast
  show ?case
    by (rule exI [of _ "d # ds"]) (use d ds cs_eq in simp)
qed

lemma map_zip_fst: "length xs = length ys \<Longrightarrow> map (\<lambda>z. f (fst z)) (zip xs ys) = map f xs"
  by (induction xs ys rule: list_induct2) auto

lemma map_zip_snd: "length xs = length ys \<Longrightarrow> map (\<lambda>z. g (snd z)) (zip xs ys) = map g ys"
  by (induction xs ys rule: list_induct2) auto

lemma concat_singletons: "concat (map (\<lambda>x. [f x]) xs) = map f xs"
  by (induction xs) auto

lemma concat_empties: "concat (map (\<lambda>x. []) xs) = []"
  by (induction xs) auto

lemma length_remdups_map_inj:
  assumes "inj g"
  shows "length (remdups (map g xs)) = length (remdups xs)"
proof -
  have "card (g ` set xs) = card (set xs)"
    by (rule card_image) (rule inj_on_subset [OF assms subset_UNIV])
  then show ?thesis
    by (simp add: length_remdups_card_conv)
qed

lemma tablejoiner_gpk:
  assumes "tablejoiner w output_folder ''gpk'' paths = (ws, None)"
  shows "\<exists>ds. map Inr ds = map (join_path w) paths \<and> length ds = length paths
       \<and> ws = map (\<lambda>z. \<lparr>to_folder = output_folder, to_name = ''TravelMatrix.gpkg'',
                        to_layer = Some (last7 (stem (fst z))), to_data = snd z\<rparr>) (zip paths ds)"
proof -
  from assms have "tj_loop w output_folder ''gpk'' paths [] = (ws, None)"
    by (simp add: tablejoiner_def split: if_splits)
  from tj_loop_ok [OF this] obtain ds where ds: "map Inr ds = map (join_path w) paths"
    and ws: "ws = concat (map (\<lambda>(p, d). tj_call output_folder ''gpk'' p d) (zip paths ds))"
    by auto
  from ds have len: "length ds = length paths"
    by (metis length_map)
  have "ws = map (\<lambda>z. \<lparr>to_folder = output_folder, to_name = ''TravelMatrix.gpkg'',
                        to_layer = Some (last7 (stem (fst z))), to_data = snd z\<rparr>) (zip paths ds)"
    unfolding ws by (simp add: tj_call_def case_prod_unfold concat_singletons)
  with ds len show ?thesis by blast
qed

lemma tablejoiner_shp:
  assumes "tablejoiner w output_folder ''shp'' paths = (ws, None)"
  shows "\<exists>ds. map Inr ds = map (join_path w) paths \<and> length ds = length paths
       \<and> ws = map (\<lambda>z. \<lparr>to_folder = output_folder, to_name = last7 (stem (fst z)),
                        to_layer = None, to_data = snd z\<rparr>) (zip paths ds)"
proof -
  from assms have "tj_loop w output_folder ''shp'' paths [] = (ws, None)"
    by (simp add: tablejoiner_def split: if_splits)
  from tj_loop_ok [OF this] obtain ds where ds: "map Inr ds = map (join_path w) paths"
    and ws: "ws = concat (map (\<lambda>(p, d). tj_call output_folder ''shp'' p d) (zip paths ds))"
    by auto
  from ds have len: "length ds = length paths"
    by (metis length_map)
  have "ws = map (\<lambda>z. \<lparr>to_folder = output_folder, to_name = last7 (stem (fst z)),
                        to_layer = None, to_data = snd z\<rparr>) (zip paths ds)"
    unfolding ws by (simp add: tj_call_def case_prod_unfold concat_singletons)
  with ds len show ?thesis by blast
qed

lemma tablejoiner_other:
  assumes "tablejoiner w output_folder fmt paths = (ws, None)"
    and "fmt \<noteq> ''shp''" and "fmt \<noteq> ''gpk''"
  shows "ws = []"
proof -
  from assms have "tj_loop w output_folder fmt paths [] = (ws, None)"
    by (simp add: tablejoiner_def split: if_splits)
  from tj_loop_ok [OF this] obtain ds where
    ws: "ws = concat (map (\<lambda>(p, d). tj_call output_folder fmt p d) (zip paths ds))"
    by auto
  show ?thesis
    unfolding ws using assms(2,3) by (simp add: tj_call_def case_prod_unfold concat_empties)
qed

lemma layers_gpk:
  assumes "length ds = length paths"
  shows "length (layers_of (map (\<lambda>z. \<lparr>to_folder = out, to_name = ''TravelMatrix.gpkg'',
                        to_layer = Some (last7 (stem (fst z))), to_data = snd z\<rparr>) (zip paths ds)))
         = length (remdups (map (\<lambda>p. last7 (stem p)) paths))"
proof -
  have i: "inj (\<lambda>s. (out, ''TravelMatrix.gpkg'', Some s))"
    by (rule injI) simp
  have "map target (map (\<lambda>z. \<lparr>to_folder = out, to_name = ''TravelMatrix.gpkg'',
                        to_layer = Some (last7 (stem (fst z))), to_data = snd z\<rparr>) (zip paths ds))
        = map (\<lambda>s. (out, ''TravelMatrix.gpkg'', Some s)) (map (\<lambda>p. last7 (stem p)) paths)"
    using map_zip_fst [OF assms [symmetric], of "\<lambda>p. (out, ''TravelMatrix.gpkg'', Some (last7 (stem p)))"]
    by (simp add: target_def comp_def)
  then show ?thesis
    unfolding layers_of_def by (simp only: length_remdups_map_inj [OF i])
qed

lemma layers_shp:
  assumes "length ds = length paths"
  shows "length (layers_of (map (\<lambda>z. \<lparr>to_folder = out, to_name = last7 (stem (fst z)),
                        to_layer = None, to_data = snd z\<rparr>) (zip paths ds)))
         = length (remdups (map (\<lambda>p. last7 (stem p)) paths))"
proof -
  have i: "inj (\<lambda>s. (out, s, None :: string option))"
    by (rule injI) simp
  have "map target (map (\<lambda>z. \<lparr>to_folder = out, to_name = last7 (stem (fst z)),
                        to_layer = None, to_data = snd z\<rparr>) (zip paths ds))
        = map (\<lambda>s. (out, s, None)) (map (\<lambda>p. last7 (stem p)) paths)"
    using map_zip_fst [OF assms [symmetric], of "\<lambda>p. (out, last7 (stem p), None :: string option)"]
    by (simp add: target_def comp_def)
  then show ?thesis
    unfolding layers_of_def by (simp only: length_remdups_map_inj [OF i])
qed

lemma ex_join_path:
  "join_path ex_world ex_path =
     Inr \<lparr>columns = [''x'', ''y'', ''YKR_ID'', ''geometry'', ''to_id'', ''car_r_t'', ''pt_r_t''],
          rows = [(0, [Num 381875, Num 6697880, Num 5785640, Geom 0, Num 5797076, Num 15, Num (- 1)]),
                  (1, [Num 382125, Num 6697880, Num 5785641, Geom 1, Num 5797076, Num 15, Num 25])]\<rparr>"
  by (simp add: join_path_def ex_world_def join_table_def merge_def key_pos_def rename_columns_def
      ex_grid_def ex_table_def merge_columns_def merge_rows_def del_pos_def enumerate_eq_zip)

lemma ex_stem: "last7 (stem ex_path) = ''5797076''"
  by (simp add: last7_def stem_def path_name_def ex_path_def)

lemma ex_stem2: "last7 (stem ex_path2) = ''5785640''"
  by (simp add: last7_def stem_def path_name_def ex_path2_def)

lemma ex_stem_old: "last7 (stem ex_path_old) = ''5797076''"
  by (simp add: last7_def stem_def path_name_def ex_path_old_def)

lemma ex2_join_path:
  "join_path ex_world2 ex_path =
     Inr \<lparr>columns = [''x'', ''y'', ''YKR_ID'', ''geometry'', ''to_id'', ''car_r_t'', ''pt_r_t''],
          rows = [(0, [Num 381875, Num 6697880, Num 5785640, Geom 0, Num 5797076, Num 15, Num (- 1)]),
                  (1, [Num 382125, Num 6697880, Num 5785641, Geom 1, Num 5797076, Num 15, Num 25])]\<rparr>"
  by (simp add: join_path_def ex_world2_def join_table_def merge_def key_pos_def rename_columns_def
      ex_grid_def ex_table_def merge_columns_def merge_rows_def del_pos_def enumerate_eq_zip)

lemma ex2_join_path2:
  "join_path ex_world2 ex_path2 =
     Inr \<lparr>columns = [''x'', ''y'', ''YKR_ID'', ''geometry'', ''to_id'', ''car_r_t'', ''pt_r_t''],
          rows = [(0, [Num 382375, Num 6697880, Num 5797076, Geom 2, Num 5785640, Num 16, Num 27])]\<rparr>"
  by (simp add: join_path_def ex_world2_def ex_path_def ex_path2_def join_table_def merge_def
      key_pos_def rename_columns_def ex_grid_def ex_table2_def merge_columns_def merge_rows_def
      del_pos_def enumerate_eq_zip)

lemma ex2_join_path_old:
  "join_path ex_world2 ex_path_old =
     Inr \<lparr>columns = [''x'', ''y'', ''YKR_ID'', ''geometry'', ''to_id'', ''car_r_t'', ''pt_r_t''],
          rows = [(0, [Num 382125, Num 6697880, Num 5785641, Geom 1, Num 5797076, Num 14, Num 30])]\<rparr>"
  by (simp add: join_path_def ex_world2_def ex_path_def ex_path2_def ex_path_old_def join_table_def
      merge_def key_pos_def rename_columns_def ex_grid_def ex_table_old_def merge_columns_def
      merge_rows_def del_pos_def enumerate_eq_zip)

lemma ex2_accepted: "accepted ex_world2 x"
  by (simp add: accepted_def ex_world2_def)

lemma ex_batch:
  "tablejoiner ex_world2 [''out''] ''gpk'' [ex_path, ex_path2] =
     ([\<lparr>to_folder = [''out''], to_name = ''TravelMatrix.gpkg'', to_layer = Some ''5797076'',
        to_data = \<lparr>columns = [''x'', ''y'', ''YKR_ID'', ''geometry'', ''to_id'', ''car_r_t'', ''pt_r_t''],
          rows = [(0, [Num 381875, Num 6697880, Num 5785640, Geom 0, Num 5797076, Num 15, Num (- 1)]),
                  (1, [Num 382125, Num 6697880, Num 5785641, Geom 1, Num 5797076, Num 15, Num 25])]\<rparr>\<rparr>,
       \<lparr>to_folder = [''out''], to_name = ''TravelMatrix.gpkg'', to_layer = Some ''5785640'',
        to_data = \<lparr>columns = [''x'', ''y'', ''YKR_ID'', ''geometry'', ''to_id'', ''car_r_t'', ''pt_r_t''],
          rows = [(0, [Num 382375, Num 6697880, Num 5797076, Geom 2, Num 5785640, Num 16, Num 27])]\<rparr>\<rparr>],
      None)"
  by (simp add: tablejoiner_def ex2_join_path ex2_join_path2 tj_to_file_def tj_call_def
      ex2_accepted ex_stem ex_stem2)

lemma ex_batch_shared:
  "tablejoiner ex_world2 [''out''] ''gpk'' [ex_path, ex_path_old] =
     ([\<lparr>to_folder = [''out''], to_name = ''TravelMatrix.gpkg'', to_layer = Some ''5797076'',
        to_data = \<lparr>columns = [''x'', ''y'', ''YKR_ID'', ''geometry'', ''to_id'', ''car_r_t'', ''pt_r_t''],
          rows = [(0, [Num 381875, Num 6697880, Num 5785640, Geom 0, Num 5797076, Num 15, Num (- 1)]),
                  (1, [Num 382125, Num 6697880, Num 5785641, Geom 1, Num 5797076, Num 15, Num 25])]\<rparr>\<rparr>,
       \<lparr>to_folder = [''out''], to_name = ''TravelMatrix.gpkg'', to_layer = Some ''5797076'',
        to_data = \<lparr>columns = [''x'', ''y'', ''YKR_ID'', ''geometry'', ''to_id'', ''car_r_t'', ''pt_r_t''],
          rows = [(0, [Num 382125, Num 6697880, Num 5785641, Geom 1, Num 5797076, Num 14, Num 30])]\<rparr>\<rparr>],
      None)"
  by (simp add: tablejoiner_def ex2_join_path ex2_join_path_old tj_to_file_def tj_call_def
      ex2_accepted ex_stem ex_stem_old)

lemma ex_batch_gpkg:
  "tablejoiner ex_world2 [''out''] ''gpkg'' [ex_path, ex_path2] = ([], None)"
  by (simp add: tablejoiner_def ex2_join_path ex2_join_path2 tj_to_file_def tj_call_def)

lemma ex_paths_differ: "ex_path \<noteq> ex_path_old"
  by (simp add: ex_path_def ex_path_old_def)

text \<open>
  C8, as the claim states it: every sequence of locations gives one layer per
  location in the geopackage. Two different locations whose file stems end in the same
  seven characters (the table of one identifier in two data folders) are written to
  the same layer of \<open>TravelMatrix.gpkg\<close>: two locations, one layer. And with the format
  \<open>'gpkg'\<close>, the name the other functions use for a geopackage, the call succeeds and
  writes nothing.
\<close>

theorem two_locations_one_layer:
  "ex_path \<noteq> ex_path_old
   \<and> snd (tablejoiner ex_world2 [''out''] ''gpk'' [ex_path, ex_path_old]) = None
   \<and> layers_of (fst (tablejoiner ex_world2 [''out''] ''gpk'' [ex_path, ex_path_old])) =
       [([''out''], ''TravelMatrix.gpkg'', Some ''5797076'')]
   \<and> length (layers_of (fst (tablejoiner ex_world2 [''out''] ''gpk'' [ex_path, ex_path_old]))) \<noteq>
       length [ex_path, ex_path_old]
   \<and> tablejoiner ex_world2 [''out''] ''gpkg'' [ex_path, ex_path2] = ([], None)"
  by (simp add: ex_batch_shared ex_batch_gpkg ex_paths_differ layers_of_def target_def)

text \<open>
  C8, amended. A call that raises no exception, with the format \<open>'gpk'\<close>: one table is
  written for each path of the list, in the order of the list, all into
  \<open>TravelMatrix.gpkg\<close> in the output folder; the table written for a path is the join of
  the grid with the table at that path, and its layer is named by the last seven
  characters of the stem of the path's file name. With the format \<open>'shp'\<close>: the same,
  each table into a file of that name in the output folder. In both formats the number
  of layers (files) written to is the number of different seven-character names, so
  it is one per location when these names are all different. With any other format
  nothing is written.
\<close>

theorem tablejoiner_layers_per_location:
  assumes "tablejoiner w output_folder fmt paths = (ws, None)"
  shows "(fmt = ''gpk'' \<longrightarrow>
            length ws = length paths
          \<and> map to_layer ws = map (\<lambda>p. Some (last7 (stem p))) paths
          \<and> map (\<lambda>x. Inr (to_data x)) ws = map (join_path w) paths
          \<and> list_all (\<lambda>x. to_folder x = output_folder \<and> to_name x = ''TravelMatrix.gpkg'') ws)
       \<and> (fmt = ''shp'' \<longrightarrow>
            length ws = length paths
          \<and> map to_name ws = map (\<lambda>p. last7 (stem p)) paths
          \<and> map (\<lambda>x. Inr (to_data x)) ws = map (join_path w) paths
          \<and> list_all (\<lambda>x. to_folder x = output_folder \<and> to_layer x = None) ws)
       \<and> (fmt = ''gpk'' \<or> fmt = ''shp'' \<longrightarrow>
            length (layers_of ws) = length (remdups (map (\<lambda>p. last7 (stem p)) paths)))
       \<and> ((fmt = ''gpk'' \<or> fmt = ''shp'') \<and> distinct (map (\<lambda>p. last7 (stem p)) paths) \<longrightarrow>
            length (layers_of ws) = length paths)
       \<and> (fmt \<noteq> ''gpk'' \<and> fmt \<noteq> ''shp'' \<longrightarrow> ws = [])"
proof -
  have g: "length ws = length paths
          \<and> map to_layer ws = map (\<lambda>p. Some (last7 (stem p))) paths
          \<and> map (\<lambda>x. Inr (to_data x)) ws = map (join_path w) paths
          \<and> list_all (\<lambda>x. to_folder x = output_folder \<and> to_name x = ''TravelMatrix.gpkg'') ws
          \<and> length (layers_of ws) = length (remdups (map (\<lambda>p. last7 (stem p)) paths))"
    if f: "fmt = ''gpk''"
  proof -
    from tablejoiner_gpk [OF assms [unfolded f]] obtain ds where
      ds: "map Inr ds = map (join_path w) paths" and len: "length ds = length paths"
      and ws: "ws = map (\<lambda>z. \<lparr>to_folder = output_folder, to_name = ''TravelMatrix.gpkg'',
                        to_layer = Some (last7 (stem (fst z))), to_data = snd z\<rparr>) (zip paths ds)"
      by blast
    have 1: "length ws = length paths"
      using len by (simp add: ws)
    have 2: "map to_layer ws = map (\<lambda>p. Some (last7 (stem p))) paths"
      using len map_zip_fst [of paths ds "\<lambda>p. Some (last7 (stem p))"]
      by (simp add: ws comp_def)
    have 3: "map (\<lambda>x. Inr (to_data x)) ws = map (join_path w) paths"
      using len ds map_zip_snd [of paths ds "Inr :: frame \<Rightarrow> error + frame"]
      by (simp add: ws comp_def)
    have 4: "list_all (\<lambda>x. to_folder x = output_folder \<and> to_name x = ''TravelMatrix.gpkg'') ws"
      by (simp add: ws list_all_iff)
    have 5: "length (layers_of ws) = length (remdups (map (\<lambda>p. last7 (stem p)) paths))"
      unfolding ws by (rule layers_gpk [OF len])
    from 1 2 3 4 5 show ?thesis by (intro conjI)
  qed
  have s: "length ws = length paths
          \<and> map to_name ws = map (\<lambda>p. last7 (stem p)) paths
          \<and> map (\<lambda>x. Inr (to_data x)) ws = map (join_path w) paths
          \<and> list_all (\<lambda>x. to_folder x = output_folder \<and> to_layer x = None) ws
          \<and> length (layers_of ws) = length (remdups (map (\<lambda>p. last7 (stem p)) paths))"
    if f: "fmt = ''shp''"
  proof -
    from tablejoiner_shp [OF assms [unfolded f]] obtain ds where
      ds: "map Inr ds = map (join_path w) paths" and len: "length ds = length paths"
      and ws: "ws = map (\<lambda>z. \<lparr>to_folder = output_folder, to_name = last7 (stem (fst z)),
                        to_layer = None, to_data = snd z\<rparr>) (zip paths ds)"
      by blast
    have 1: "length ws = length paths"
      using len by (simp add: ws)
    have 2: "map to_name ws = map (\<lambda>p. last7 (stem p)) paths"
      using len map_zip_fst [of paths ds "\<lambda>p. last7 (stem p)"]
      by (simp add: ws comp_def)
    have 3: "map (\<lambda>x. Inr (to_data x)) ws = map (join_path w) paths"
      using len ds map_zip_snd [of paths ds "Inr :: frame \<Rightarrow> error + frame"]
      by (simp add: ws comp_def)
    have 4: "list_all (\<lambda>x. to_folder x = output_folder \<and> to_layer x = None) ws"
      by (simp add: ws list_all_iff)
    have 5: "length (layers_of ws) = length (remdups (map (\<lambda>p. last7 (stem p)) paths))"
      unfolding ws by (rule layers_shp [OF len])
    from 1 2 3 4 5 show ?thesis by (intro conjI)
  qed
  have l: "length (layers_of ws) = length (remdups (map (\<lambda>p. last7 (stem p)) paths))"
    if "fmt = ''gpk'' \<or> fmt = ''shp''"
  proof -
    from that show ?thesis
    proof
      assume "fmt = ''gpk''"
      from g [OF this] show ?thesis by (elim conjE)
    next
      assume "fmt = ''shp''"
      from s [OF this] show ?thesis by (elim conjE)
    qed
  qed
  have d: "length (layers_of ws) = length paths"
    if "(fmt = ''gpk'' \<or> fmt = ''shp'') \<and> distinct (map (\<lambda>p. last7 (stem p)) paths)"
  proof -
    from that have "remdups (map (\<lambda>p. last7 (stem p)) paths) = map (\<lambda>p. last7 (stem p)) paths"
      by (simp add: distinct_remdups_id)
    with l that show ?thesis by simp
  qed
  have e: "ws = []" if "fmt \<noteq> ''gpk'' \<and> fmt \<noteq> ''shp''"
    using tablejoiner_other [OF assms] that by simp
  have G: "fmt = ''gpk'' \<longrightarrow>
            length ws = length paths
          \<and> map to_layer ws = map (\<lambda>p. Some (last7 (stem p))) paths
          \<and> map (\<lambda>x. Inr (to_data x)) ws = map (join_path w) paths
          \<and> list_all (\<lambda>x. to_folder x = output_folder \<and> to_name x = ''TravelMatrix.gpkg'') ws"
  proof
    assume "fmt = ''gpk''"
    from g [OF this] show "length ws = length paths
          \<and> map to_layer ws = map (\<lambda>p. Some (last7 (stem p))) paths
          \<and> map (\<lambda>x. Inr (to_data x)) ws = map (join_path w) paths
          \<and> list_all (\<lambda>x. to_folder x = output_folder \<and> to_name x = ''TravelMatrix.gpkg'') ws"
      by (elim conjE) (intro conjI; assumption)
  qed
  have S: "fmt = ''shp'' \<longrightarrow>
            length ws = length paths
          \<and> map to_name ws = map (\<lambda>p. last7 (stem p)) paths
          \<and> map (\<lambda>x. Inr (to_data x)) ws = map (join_path w) paths
          \<and> list_all (\<lambda>x. to_folder x = output_folder \<and> to_layer x = None) ws"
  proof
    assume "fmt = ''shp''"
    from s [OF this] show "length ws = length paths
          \<and> map to_name ws = map (\<lambda>p. last7 (stem p)) paths
          \<and> map (\<lambda>x. Inr (to_data x)) ws = map (join_path w) paths
          \<and> list_all (\<lambda>x. to_folder x = output_folder \<and> to_layer x = None) ws"
      by (elim conjE) (intro conjI; assumption)
  qed
  have L: "fmt = ''gpk'' \<or> fmt = ''shp'' \<longrightarrow>
            length (layers_of ws) = length (remdups (map (\<lambda>p. last7 (stem p)) paths))"
    by (rule impI) (rule l)
  have D: "(fmt = ''gpk'' \<or> fmt = ''shp'') \<and> distinct (map (\<lambda>p. last7 (stem p)) paths) \<longrightarrow>
            length (layers_of ws) = length paths"
    by (rule impI) (rule d)
  have E: "fmt \<noteq> ''gpk'' \<and> fmt \<noteq> ''shp'' \<longrightarrow> ws = []"
    by (rule impI) (rule e)
  show ?thesis
    by (intro conjI) (rule G S L D E)+
qed

theorem tablejoiner_layers_per_location_witness:
  "map to_layer (fst (tablejoiner ex_world2 [''out''] ''gpk'' [ex_path, ex_path2])) =
     [Some ''5797076'', Some ''5785640'']
   \<and> map (\<lambda>x. Inr (to_data x)) (fst (tablejoiner ex_world2 [''out''] ''gpk'' [ex_path, ex_path2])) =
     [join_path ex_world2 ex_path, join_path ex_world2 ex_path2]
   \<and> length (layers_of (fst (tablejoiner ex_world2 [''out''] ''gpk'' [ex_path, ex_path2]))) = 2"
  using tablejoiner_layers_per_location [OF ex_batch]
  by (simp add: ex_batch ex_stem ex_stem2)

section \<open>Properties of compare\<close>

subsection \<open>The selection of lines 287 to 289\<close>

lemma filter_by_mask: "map fst (filter snd (zip xs (map P xs))) = filter P xs"
  by (induction xs) auto

lemma mask_both: "map (\<lambda>(p, q). p \<and> q) (zip (map f xs) (map g xs)) = map (\<lambda>x. f x \<and> g x) xs"
  by (induction xs) auto

lemma ge0_col:
  "ge0 (map (cell_of df c) (rows df)) =
     (if numeric_col df c then Inr (map (\<lambda>r. 0 \<le> num_of (cell_of df c r)) (rows df)) else Inl TypeError)"
  by (simp add: ge0_def numeric_col_def list_all_iff)

lemma select_valid_eq:
  assumes "find_pos a (columns data) = Some ia" and "find_pos b (columns data) = Some ib"
  shows "select_valid data (a # b # rest) =
     (if numeric_col data a \<and> numeric_col data b
      then Inr (data\<lparr>rows := valid_rows data a b\<rparr>) else Inl TypeError)"
  by (simp add: select_valid_def py_index_def getcol_present [OF assms(1)]
      getcol_present [OF assms(2)] ge0_col loc_def mask_both filter_by_mask valid_rows_def)

lemma select_valid_Inr:
  assumes "select_valid data (a # b # rest) = Inr sel"
  shows "(\<exists>ia. find_pos a (columns data) = Some ia) \<and> (\<exists>ib. find_pos b (columns data) = Some ib)"
proof -
  from assms obtain ca where ca: "getcol data a = Inr ca"
    by (cases "getcol data a") (auto simp: select_valid_def py_index_def)
  from assms ca obtain ma where ma: "ge0 ca = Inr ma"
    by (cases "ge0 ca") (auto simp: select_valid_def py_index_def)
  from assms ca ma obtain cb where cb: "getcol data b = Inr cb"
    by (cases "getcol data b") (auto simp: select_valid_def py_index_def)
  from ca cb show ?thesis by (auto dest: getcol_Inr_present)
qed

lemma select_columns_valid:
  assumes "find_pos a (columns data) = Some ia" and "find_pos b (columns data) = Some ib"
    and "find_pos ''geometry'' (columns data) = Some ig"
  shows "select_columns (data\<lparr>rows := valid_rows data a b\<rparr>) [a, b, ''geometry''] =
           Inr (picked data a b)"
  using assms by (simp add: select_columns_def picked_def cell_of_def)

lemma numeric_valid_rows:
  "numeric_col data c \<Longrightarrow> list_all (\<lambda>r. numeric (cell_of data c r)) (valid_rows data a b)"
  by (auto simp: numeric_col_def valid_rows_def list_all_iff)

lemma zip_maps: "map h (zip (map f xs) (map g xs)) = map (\<lambda>x. h (f x, g x)) xs"
  by (induction xs) auto

lemma assign_diff_picked:
  assumes "numeric_col data a" and "numeric_col data b" and "distinct [a, b, ''geometry'']"
  shows "assign_diff (picked data a b) a b =
           Inr (set_col (picked data a b) ''diff'' (diff_cells data a b))"
proof -
  have ga: "getcol (picked data a b) a = Inr (map (cell_of data a) (valid_rows data a b))"
    by (simp add: getcol_def picked_def comp_def)
  have gb: "getcol (picked data a b) b = Inr (map (cell_of data b) (valid_rows data a b))"
    using assms(3) by (simp add: getcol_def picked_def comp_def)
  have sc: "sub_cols (map (cell_of data a) (valid_rows data a b))
              (map (cell_of data b) (valid_rows data a b)) = Inr (diff_cells data a b)"
    using numeric_valid_rows [OF assms(1), of a b] numeric_valid_rows [OF assms(2), of a b]
    by (simp add: sub_cols_def diff_cells_def zip_maps list_all_iff)
  have d: "distinct (columns (picked data a b))"
    using assms(3) by (simp add: picked_def)
  show ?thesis
    by (simp add: assign_diff_def d ga gb sc)
qed

lemma compare_selection_eq:
  assumes "find_pos a (columns data) = Some ia" and "find_pos b (columns data) = Some ib"
    and "find_pos ''geometry'' (columns data) = Some ig"
    and "numeric_col data a" and "numeric_col data b" and "distinct [a, b, ''geometry'']"
  shows "compare_selection (Some data) (a # b # rest) =
           Inr (set_col (picked data a b) ''diff'' (diff_cells data a b))"
  by (simp add: compare_selection_def select_valid_eq [OF assms(1,2)] assms(4,5) py_index_def
      select_columns_valid [OF assms(1,2,3)] assign_diff_picked [OF assms(4,5,6)])

lemma compare_selection_Inr:
  assumes "compare_selection (Some data) (a # b # rest) = Inr s"
  shows "(\<exists>ia. find_pos a (columns data) = Some ia) \<and> (\<exists>ib. find_pos b (columns data) = Some ib)
       \<and> (\<exists>ig. find_pos ''geometry'' (columns data) = Some ig)
       \<and> numeric_col data a \<and> numeric_col data b \<and> distinct [a, b, ''geometry'']"
proof -
  from assms obtain sel where sel: "select_valid data (a # b # rest) = Inr sel"
    by (cases "select_valid data (a # b # rest)") (auto simp: compare_selection_def)
  from select_valid_Inr [OF sel] obtain ia ib where
    ia: "find_pos a (columns data) = Some ia" and ib: "find_pos b (columns data) = Some ib"
    by blast
  from sel have num: "numeric_col data a \<and> numeric_col data b"
    unfolding select_valid_eq [OF ia ib] by (simp split: if_splits)
  with sel have sel_eq: "sel = data\<lparr>rows := valid_rows data a b\<rparr>"
    unfolding select_valid_eq [OF ia ib] by simp
  from assms sel obtain pk where pk: "select_columns sel [a, b, ''geometry''] = Inr pk"
    by (cases "select_columns sel [a, b, ''geometry'']")
       (auto simp: compare_selection_def py_index_def)
  then obtain ig where ig: "find_pos ''geometry'' (columns data) = Some ig"
    unfolding sel_eq using ia ib
    by (cases "find_pos ''geometry'' (columns data)") (auto simp: select_columns_def)
  have pk_eq: "pk = picked data a b"
    using pk select_columns_valid [OF ia ib ig] unfolding sel_eq by simp
  have "distinct [a, b, ''geometry'']"
  proof (rule ccontr)
    assume "\<not> distinct [a, b, ''geometry'']"
    then have "assign_diff (picked data a b) a b = Inl ValueError"
      by (simp add: assign_diff_def picked_def)
    with assms sel pk pk_eq show False
      by (simp add: compare_selection_def py_index_def)
  qed
  with ia ib ig num show ?thesis by blast
qed

lemma set_col_labels:
  "length vs = length (rows df) \<Longrightarrow> map fst (rows (set_col df c vs)) = map fst (rows df)"
  by (auto simp: set_col_def map_fst_zip comp_def case_prod_unfold split: option.splits
      intro!: nth_equalityI)

lemma getcol_set_col:
  assumes "length vs = length (rows df)"
    and "list_all (\<lambda>r. length (snd r) = length (columns df)) (rows df)"
  shows "getcol (set_col df c vs) c = Inr vs"
proof (cases "find_pos c (columns df)")
  case None
  then have "c \<notin> set (columns df)" by (simp add: find_pos_None)
  then have p: "find_pos c (columns df @ [c]) = Some (length (columns df))"
    by (rule find_pos_append_new)
  have "map (\<lambda>r. snd r ! length (columns df))
          (map (\<lambda>(r, v). (fst r, snd r @ [v])) (zip (rows df) vs)) = vs"
    using assms
    by (intro nth_equalityI) (auto simp: list_all_length nth_append)
  with None p show ?thesis by (simp add: set_col_def getcol_def)
next
  case (Some i)
  from find_pos_Some_less [OF Some] have i: "i < length (columns df)" by simp
  have "map (\<lambda>r. snd r ! i)
          (map (\<lambda>(r, v). (fst r, (snd r)[i := v])) (zip (rows df) vs)) = vs"
    using assms i
    by (intro nth_equalityI) (auto simp: list_all_length)
  with Some show ?thesis by (simp add: set_col_def getcol_def)
qed

lemma picked_wf:
  "list_all (\<lambda>r. length (snd r) = length (columns (picked data a b))) (rows (picked data a b))"
  by (simp add: picked_def list_all_iff)

lemma rows_picked: "map fst (rows (picked data a b)) = map fst (valid_rows data a b)"
  by (simp add: picked_def comp_def)

lemma valid_rows_commute: "valid_rows data b a = valid_rows data a b"
  by (auto simp: valid_rows_def intro: filter_cong)

lemma diff_cells_swap:
  "diff_cells data b a = map (\<lambda>c. Num (- num_of c)) (diff_cells data a b)"
  by (simp add: diff_cells_def valid_rows_commute)

lemma ex_selection:
  "compare_selection (Some ex_layer) [''car_r_t'', ''pt_r_t''] =
     Inr \<lparr>columns = [''car_r_t'', ''pt_r_t'', ''geometry'', ''diff''],
          rows = [(1, [Num 15, Num 25, Geom 1, Num (- 10)])]\<rparr>"
  by (simp add: compare_selection_def select_valid_def py_index_def getcol_def ex_layer_def
      ge0_def loc_def select_columns_def assign_diff_def sub_cols_def set_col_def)

lemma ex_compare:
  "compare ex_world ''shp'' ''5797076'' ''out'' [''car_r_t'', ''pt_r_t''] =
     Inr (Some \<lparr>cw_file = ''out'' @ [CHR 0x5C] @ ''Acessibility_5797076_car_r_t_vs_pt_r_t.shp'',
                cw_layer = None, cw_data = ex_layer\<rparr>)"
  by (simp add: compare_def import_data_def ex_world_def compare_selection_def select_valid_def
      py_index_def getcol_def ex_layer_def ge0_def loc_def select_columns_def assign_diff_def
      sub_cols_def set_col_def compare_to_file_def vs_name_def)

text \<open>
  The sign of \<open>diff\<close> in the selection. Whenever lines 287 to 289 succeed for the modes
  \<open>a\<close> and \<open>b\<close>, the selection holds the rows of the layer in which neither mode is
  negative, and its \<open>diff\<close> column is, row by row, the value of \<open>a\<close> minus the value of
  \<open>b\<close>. The selection for the modes in the other order then succeeds too, holds the same
  rows, and its \<open>diff\<close> column is the negation of the first one.
\<close>

lemma compare_diff_antisymmetric:
  assumes "compare_selection (Some data) [a, b] = Inr s"
  shows "map fst (rows s) = map fst (valid_rows data a b)
       \<and> getcol s ''diff'' = Inr (diff_cells data a b)
       \<and> (\<exists>s'. compare_selection (Some data) [b, a] = Inr s'
              \<and> map fst (rows s') = map fst (rows s)
              \<and> getcol s' ''diff'' = Inr (map (\<lambda>c. Num (- num_of c)) (diff_cells data a b)))"
proof -
  from compare_selection_Inr [OF assms] obtain ia ib ig where
    ia: "find_pos a (columns data) = Some ia" and ib: "find_pos b (columns data) = Some ib"
    and ig: "find_pos ''geometry'' (columns data) = Some ig"
    and na: "numeric_col data a" and nb: "numeric_col data b"
    and d: "distinct [a, b, ''geometry'']"
    by blast
  from d have d': "distinct [b, a, ''geometry'']" by auto
  have s: "s = set_col (picked data a b) ''diff'' (diff_cells data a b)"
    using assms compare_selection_eq [OF ia ib ig na nb d, of "[]"] by simp
  define s' where "s' = set_col (picked data b a) ''diff'' (diff_cells data b a)"
  have s': "compare_selection (Some data) [b, a] = Inr s'"
    unfolding s'_def by (rule compare_selection_eq [OF ib ia ig nb na d'])
  have len: "length (diff_cells data a b) = length (rows (picked data a b))" for a b
    by (simp add: diff_cells_def picked_def)
  have 1: "map fst (rows s) = map fst (valid_rows data a b)"
    unfolding s by (simp add: set_col_labels [OF len] rows_picked)
  have 2: "getcol s ''diff'' = Inr (diff_cells data a b)"
    unfolding s by (rule getcol_set_col [OF len picked_wf])
  have 3: "map fst (rows s') = map fst (rows s)"
    unfolding 1 unfolding s'_def
    by (simp add: set_col_labels [OF len] rows_picked valid_rows_commute)
  have 4: "getcol s' ''diff'' = Inr (map (\<lambda>c. Num (- num_of c)) (diff_cells data a b))"
    unfolding s'_def using getcol_set_col [OF len [of b a] picked_wf]
    by (simp only: diff_cells_swap [of data b a])
  from 1 2 3 4 s' show ?thesis by blast
qed

lemma compare_diff_antisymmetric_example:
  "getcol \<lparr>columns = [''car_r_t'', ''pt_r_t'', ''geometry'', ''diff''],
           rows = [(1, [Num 15, Num 25, Geom 1, Num (- 10)])]\<rparr> ''diff'' = Inr [Num (- 10)]
   \<and> (\<exists>s'. compare_selection (Some ex_layer) [''pt_r_t'', ''car_r_t''] = Inr s'
           \<and> map fst (rows s') = [1] \<and> getcol s' ''diff'' = Inr [Num 10])"
  using compare_diff_antisymmetric [OF ex_selection]
  by (simp add: diff_cells_def valid_rows_def cell_of_def ex_layer_def)

subsection \<open>The file written\<close>

text \<open>
  C1, at a layer with a "no data" row: the table handed to \<open>to_file\<close> is the layer as
  it was read, with the row whose \<open>pt_r_t\<close> is -1, with all its columns and without a
  \<open>diff\<close> column. The selection of lines 287 to 289, which holds only the valid row,
  the two modes, the geometry and \<open>diff\<close>, is not written.
\<close>

theorem compare_writes_unfiltered_layer:
  "compare ex_world ''shp'' ''5797076'' ''out'' [''car_r_t'', ''pt_r_t''] =
     Inr (Some \<lparr>cw_file = ''out'' @ [CHR 0x5C] @ ''Acessibility_5797076_car_r_t_vs_pt_r_t.shp'',
                cw_layer = None,
                cw_data = \<lparr>columns = [''YKR_ID'', ''car_r_t'', ''pt_r_t'', ''geometry''],
                   rows = [(0, [Num 5785640, Num 15, Num (- 1), Geom 0]),
                           (1, [Num 5785641, Num 15, Num 25, Geom 1])]\<rparr>\<rparr>)
   \<and> compare_selection (Some ex_layer) [''car_r_t'', ''pt_r_t''] =
     Inr \<lparr>columns = [''car_r_t'', ''pt_r_t'', ''geometry'', ''diff''],
          rows = [(1, [Num 15, Num 25, Geom 1, Num (- 10)])]\<rparr>"
  by (simp add: ex_compare ex_selection) (simp add: ex_layer_def)

lemma compare_writes_data:
  assumes "compare w file YKR_ID path lst = Inr (Some wr)"
  shows "import_data w file path (LayerName YKR_ID) = Inr (Some (cw_data wr))"
proof -
  from assms obtain dv where dv: "import_data w file path (LayerName YKR_ID) = Inr dv"
    by (cases "import_data w file path (LayerName YKR_ID)") (auto simp: compare_def)
  from assms dv obtain sel where sel: "compare_selection dv lst = Inr sel"
    by (cases "compare_selection dv lst") (auto simp: compare_def)
  from sel obtain data where d: "dv = Some data"
    by (cases dv) (auto simp: compare_selection_def)
  from assms dv sel d have "compare_to_file file YKR_ID path lst (Some data) = Inr (Some wr)"
    by (simp add: compare_def)
  then have "cw_data wr = data"
    by (cases "py_index lst 0"; cases "py_index lst 1")
       (auto simp: compare_to_file_def split: if_splits)
  with dv d show ?thesis by simp
qed

text \<open>
  C3, on what \<open>compare\<close> produces. The table \<open>compare\<close> writes is the layer as it was
  read, so its \<open>diff\<close> column is whatever the layer had: for a layer that already has a
  \<open>diff\<close> of 5 in its one row (car 15, public transport 25), the written \<open>diff\<close> is 5 for
  the modes in either order, not -10 and 10; for a layer without a \<open>diff\<close> column the
  written table has none. The difference computed in the selection, -10, is not
  written.
\<close>

theorem compare_written_diff_not_negated:
  "(\<exists>wr. compare ex_world2 ''shp'' ''5785641'' ''old'' [''car_r_t'', ''pt_r_t''] = Inr (Some wr)
         \<and> getcol (cw_data wr) ''diff'' = Inr [Num 5])
   \<and> (\<exists>wr. compare ex_world2 ''shp'' ''5785641'' ''old'' [''pt_r_t'', ''car_r_t''] = Inr (Some wr)
         \<and> getcol (cw_data wr) ''diff'' = Inr [Num 5])
   \<and> (\<exists>wr. compare ex_world2 ''shp'' ''5797076'' ''out'' [''car_r_t'', ''pt_r_t''] = Inr (Some wr)
         \<and> getcol (cw_data wr) ''diff'' = Inl (KeyError ''diff''))
   \<and> (\<exists>s. compare_selection (Some ex_layer_diff) [''car_r_t'', ''pt_r_t''] = Inr s
         \<and> getcol s ''diff'' = Inr [Num (- 10)])"
  by (simp add: compare_def import_data_def ex_world2_def compare_selection_def select_valid_def
      py_index_def getcol_def ex_layer_def ex_layer_diff_def ge0_def loc_def select_columns_def
      assign_diff_def sub_cols_def set_col_def compare_to_file_def vs_name_def)

section \<open>Mode columns\<close>








section \<open>The file argument\<close>

text \<open>
  C10. When \<open>file\<close> is neither \<open>'shp'\<close> nor \<open>'gpkg'\<close>, no branch assigns \<open>data\<close>, and
  both \<open>compare\<close> and \<open>visualiser\<close> raise \<open>NameError\<close> at the selection, whatever the
  other arguments and the files are. A call of either function that does not raise has
  \<open>file\<close> equal to \<open>'shp'\<close> or \<open>'gpkg'\<close>.
\<close>

theorem unassigned_data_raises:
  "(file \<noteq> ''shp'' \<and> file \<noteq> ''gpkg'' \<longrightarrow>
      import_data w file path layer = Inr None
    \<and> compare w file YKR_ID path lst = Inl NameError
    \<and> visualiser w file path Y mode output map' = Inl NameError)
   \<and> ((\<exists>r. compare w file YKR_ID path lst = Inr r) \<longrightarrow> file = ''shp'' \<or> file = ''gpkg'')
   \<and> ((\<exists>r. visualiser w file path Y mode output map' = Inr r) \<longrightarrow> file = ''shp'' \<or> file = ''gpkg'')"
proof -
  have 1: "import_data w file path layer = Inr None
    \<and> compare w file YKR_ID path lst = Inl NameError
    \<and> visualiser w file path Y mode output map' = Inl NameError"
    if "file \<noteq> ''shp'' \<and> file \<noteq> ''gpkg''" for layer
    using that
    by (simp add: import_data_def compare_def visualiser_def compare_selection_def select_mode_def)
  show ?thesis
  proof (cases "file \<noteq> ''shp'' \<and> file \<noteq> ''gpkg''")
    case True
    with 1 [OF True] show ?thesis by simp
  next
    case False
    then show ?thesis by blast
  qed
qed

theorem unassigned_data_raises_witness:
  "compare ex_world ''gpk'' ''5797076'' ''out'' [''car_r_t'', ''pt_r_t''] = Inl NameError
   \<and> visualiser ex_world ''gpk'' ''out'' 5797076 ''car_r_t'' ''maps/'' ''static'' = Inl NameError
   \<and> (\<exists>r. compare ex_world ''shp'' ''5797076'' ''out'' [''car_r_t'', ''pt_r_t''] = Inr r)"
  using unassigned_data_raises [of "''gpk''" ex_world "''out''" NoLayer "''5797076''"
      "[''car_r_t'', ''pt_r_t'']" 5797076 "''car_r_t''" "''maps/''" "''static''"]
  by (simp add: ex_compare)

end
